theory Spec2Isabelle
  imports Main
begin

section \<open>The subroutine layer of PyTeal (pyteal/ast/subroutine.py)\<close>

text \<open>
  The module builds three kinds of objects: a \<open>SubroutineDefinition\<close> (the validated
  metadata of one Python function), a \<open>SubroutineCall\<close> (one call site) and a
  \<open>SubroutineDeclaration\<close> (the body of the subroutine, built lazily once per definition
  by \<open>evaluateSubroutine\<close>). Python exceptions are values of the type \<open>error\<close>, returned
  as \<open>Inl\<close>; the class counters and whatever the host function does are threaded
  through explicitly as a \<open>world\<close>.
\<close>

subsection \<open>Values of the surrounding compiler\<close>

datatype TealType = uint64 | bytes | anytype | none

datatype ScratchSlot = ScratchSlot (slot_id: nat)

text \<open>
  A \<open>ScratchVar\<close> has a type and a slot; \<open>dynamic\<close> tells an instance of the subclass
  \<open>DynamicScratchVar\<close>, whose slot holds the index of another slot.
\<close>

record ScratchVar =
  sv_type :: TealType
  slot :: ScratchSlot
  dynamic :: bool

text \<open>
  Expressions. The module itself only creates loads, stack stores, slot indexes and
  sequences; every other node of the compiler's expression tree is an \<open>OtherExpr\<close>,
  known by a label, by its static type and by its operands.
\<close>

datatype Expr =
    ScratchLoad ScratchSlot TealType
  | ScratchStackStore ScratchSlot
  | ScratchIndex ScratchSlot
  | Seq "Expr list"
  | OtherExpr string TealType "Expr list"

text \<open>
  Modelled from the spec: \<open>type_of\<close> of the expression nodes, which live outside this
  module. A stack store produces nothing, a slot index is an integer, a sequence has the
  type of its last element.
\<close>

fun type_of :: "Expr \<Rightarrow> TealType"
  and type_of_last :: "Expr list \<Rightarrow> TealType" where
  "type_of (ScratchLoad s t) = t"
| "type_of (ScratchStackStore s) = none"
| "type_of (ScratchIndex s) = uint64"
| "type_of (Seq es) = type_of_last es"
| "type_of (OtherExpr l t es) = t"
| "type_of_last [] = none"
| "type_of_last [e] = type_of e"
| "type_of_last (e # e' # es) = type_of_last (e' # es)"

text \<open>
  A Python value as the module can meet it: an \<open>Expr\<close>, a \<open>ScratchVar\<close>, or an object of
  any other class.
\<close>

datatype pyval = PyExpr Expr | PyScratchVar ScratchVar | PyOther string

datatype ArgClass = ExprClass | ScratchVarClass

fun isinstance :: "pyval \<Rightarrow> ArgClass \<Rightarrow> bool" where
  "isinstance (PyExpr e) ExprClass = True"
| "isinstance (PyScratchVar v) ScratchVarClass = True"
| "isinstance a c = False"

datatype error =
    NotCallable
  | InputTypesCountMismatch nat nat
  | DisallowedReturnAnnotation
  | DisallowedParameterKind string
  | ParameterWithDefault string
  | ParameterTypeNotClass string
  | ParameterTypeDisallowed string
  | ParameterTypeContradiction string
  | WrongArgumentCount nat nat
  | WrongArgumentType nat
  | UnexpectedArgument nat
  | ArgumentIsNone nat
  | BodyNotExpr
  | VersionTooLow
  | PyTypeError
  | PyIndexError
  | PyAttributeError
  | HostException string

text \<open>
  All constructors up to \<open>VersionTooLow\<close> are the \<open>TealInputError\<close>s the module (or
  \<open>verifyTealVersion\<close>) raises, one per raise site, with the values their messages
  print; the \<open>Py\<close> ones are the interpreter's own, and \<open>HostException\<close> is whatever the
  host function raises.
\<close>

text \<open>
  The world: the class counter \<open>SubroutineDefinition.nextSubroutineId\<close>, the slot
  counter of \<open>ScratchSlot\<close>, the number the next allocated object gets (Python objects
  have an identity: two declarations with equal fields are still two objects), and the
  state of the host program.
\<close>

record 'h world =
  nextSubroutineId :: nat
  nextSlotId :: nat
  nextObjectId :: nat
  host :: 'h

text \<open>
  Modelled from the spec: slots are numbered from one shared counter; a \<open>ScratchVar\<close>
  and a \<open>DynamicScratchVar\<close> each take a fresh slot; \<open>load\<close> and \<open>store\<close> (without a
  value: the value comes from the stack) build the expression nodes.
\<close>

definition ScratchSlot_new :: "'h world \<Rightarrow> ScratchSlot \<times> 'h world" where
  "ScratchSlot_new w = (ScratchSlot (nextSlotId w), w\<lparr>nextSlotId := nextSlotId w + 1\<rparr>)"

definition ScratchVar_new :: "TealType \<Rightarrow> 'h world \<Rightarrow> ScratchVar \<times> 'h world" where
  "ScratchVar_new t w =
     (case ScratchSlot_new w of
        (s, w') \<Rightarrow> (\<lparr>sv_type = t, slot = s, dynamic = False\<rparr>, w'))"

definition DynamicScratchVar_new :: "TealType \<Rightarrow> 'h world \<Rightarrow> ScratchVar \<times> 'h world" where
  "DynamicScratchVar_new t w =
     (case ScratchSlot_new w of
        (s, w') \<Rightarrow> (\<lparr>sv_type = t, slot = s, dynamic = True\<rparr>, w'))"

definition load :: "ScratchVar \<Rightarrow> Expr" where
  "load v = ScratchLoad (slot v) (sv_type v)"

definition store :: "ScratchSlot \<Rightarrow> Expr" where
  "store s = ScratchStackStore s"

text \<open>
  Modelled from the spec: \<open>index()\<close>, the slot-index accessor. The index of a plain
  variable is the constant index of its own slot. The slot of a dynamic variable holds
  the index of the slot it aliases, so its index is read from that slot: it is a load,
  of an integer, of the variable's own slot.
\<close>

definition index :: "ScratchVar \<Rightarrow> Expr" where
  "index v = (if dynamic v then ScratchLoad (slot v) uint64 else ScratchIndex (slot v))"

subsection \<open>The host function\<close>

datatype ParameterKind =
  POSITIONAL_ONLY | POSITIONAL_OR_KEYWORD | VAR_POSITIONAL | KEYWORD_ONLY | VAR_KEYWORD

record Parameter =
  kind :: ParameterKind
  has_default :: bool

text \<open>
  An annotation is the class \<open>Expr\<close>, the class \<open>ScratchVar\<close>, another class, an
  object that is not a class, or \<open>None\<close>.
\<close>

datatype annotation =
  AnnExpr | AnnScratchVar | AnnOtherClass string | AnnNotClass string | AnnNone

text \<open>
  What \<open>inspect.signature\<close>, \<open>__annotations__\<close>, \<open>__name__\<close> and a call show of a Python
  function. A call takes the positional arguments and the world, and returns a value or
  raises.
\<close>

record 'h PyFunction =
  fn_name :: string
  fn_parameters :: "(string \<times> Parameter) list"
  fn_annotations :: "(string \<times> annotation) list"
  fn_call :: "pyval list \<Rightarrow> 'h world \<Rightarrow> (error + pyval) \<times> 'h world"

datatype 'h pyobject = Uncallable string | Function "'h PyFunction"

subsection \<open>SubroutineDeclaration and SubroutineDefinition\<close>

text \<open>
  The declaration points back to its definition; the definition holds the declaration
  in its cache. The back pointer is kept as the definition's \<open>id\<close>, since a value cannot
  contain itself. \<open>object_id\<close> is the identity of the declaration object.
\<close>

record SubroutineDeclaration =
  object_id :: nat
  decl_subroutine :: nat
  body :: Expr

record 'h SubroutineDefinition =
  id' :: nat
  input_types :: "TealType list option"
  by_ref_args :: "string set"
  expected_arg_types :: "ArgClass list"
  implementation :: "'h PyFunction"
  implementationParams :: "(string \<times> Parameter) list"
  returnType :: TealType
  declaration' :: "SubroutineDeclaration option"
  name' :: string

definition SubroutineDeclaration_init ::
  "'h SubroutineDefinition \<Rightarrow> Expr \<Rightarrow> 'h world \<Rightarrow> SubroutineDeclaration \<times> 'h world" where
  "SubroutineDeclaration_init subroutine b w =
     (\<lparr>object_id = nextObjectId w, decl_subroutine = id' subroutine, body = b\<rparr>,
      w\<lparr>nextObjectId := nextObjectId w + 1\<rparr>)"

text \<open>
  \<open>_validate_parameter_type\<close>. \<open>Expr_type_of\<close> is what the class-level call
  \<open>Expr.type_of()\<close> evaluates to; the class \<open>Expr\<close> is declared outside this module, so
  the value is a parameter. Python's \<open>and\<close> evaluates it only for an \<open>Expr\<close> annotation
  with an input type that is not \<open>None\<close>.
\<close>

definition validate_parameter_type ::
  "error + TealType \<Rightarrow> (string \<times> annotation) list \<Rightarrow> string \<Rightarrow> TealType option
     \<Rightarrow> error + ArgClass" where
  "validate_parameter_type Expr_type_of user_defined_annotations parameter_name input_type =
     (case map_of user_defined_annotations parameter_name of
        None \<Rightarrow> Inr ExprClass
      | Some AnnNone \<Rightarrow> Inr ExprClass
      | Some (AnnNotClass c) \<Rightarrow> Inl (ParameterTypeNotClass parameter_name)
      | Some (AnnOtherClass c) \<Rightarrow> Inl (ParameterTypeDisallowed parameter_name)
      | Some AnnScratchVar \<Rightarrow> Inr ScratchVarClass
      | Some AnnExpr \<Rightarrow>
          (case input_type of
             None \<Rightarrow> Inr ExprClass
           | Some t \<Rightarrow>
               (case Expr_type_of of
                  Inl e \<Rightarrow> Inl e
                | Inr pt \<Rightarrow>
                    if pt \<noteq> t then Inl (ParameterTypeContradiction parameter_name)
                    else Inr ExprClass)))"

text \<open>
  Lines 94 to 96 of the constructor: \<open>input_type = None\<close>, then
  \<open>if input_type: input_type = input_types[i]\<close>. \<open>None\<close> is false and a member of the
  enumeration is true; the subscript raises on \<open>None\<close> and out of range.
\<close>

definition loop_input_type :: "TealType list option \<Rightarrow> nat \<Rightarrow> error + TealType option" where
  "loop_input_type its i =
     (let input_type = (None :: TealType option) in
      if input_type \<noteq> None
      then (case its of
              None \<Rightarrow> Inl PyTypeError
            | Some ts \<Rightarrow> if i < length ts then Inr (Some (ts ! i)) else Inl PyIndexError)
      else Inr input_type)"

text \<open>
  The loop of the constructor over the parameters, with its index and the two
  collections it fills (\<open>expected_arg_types\<close> and \<open>by_ref_args\<close>).
\<close>

fun init_loop ::
  "error + TealType \<Rightarrow> (string \<times> annotation) list \<Rightarrow> TealType list option \<Rightarrow> nat
     \<Rightarrow> (string \<times> Parameter) list \<Rightarrow> ArgClass list \<times> string set
     \<Rightarrow> error + ArgClass list \<times> string set" where
  "init_loop tyof anns its i [] acc = Inr acc"
| "init_loop tyof anns its i ((name, param) # rest) (expected, by_ref) =
     (if kind param \<noteq> POSITIONAL_ONLY \<and> kind param \<noteq> POSITIONAL_OR_KEYWORD
      then Inl (DisallowedParameterKind name)
      else if has_default param then Inl (ParameterWithDefault name)
      else
        (case loop_input_type its i of
           Inl e \<Rightarrow> Inl e
         | Inr input_type \<Rightarrow>
             (case validate_parameter_type tyof anns name input_type of
                Inl e \<Rightarrow> Inl e
              | Inr expected_arg_type \<Rightarrow>
                  init_loop tyof anns its (i + 1) rest
                    (expected @ [expected_arg_type],
                     if expected_arg_type = ScratchVarClass then insert name by_ref
                     else by_ref))))"

text \<open>
  The constructor. The id is taken, and the counter moved, before anything is checked.
\<close>

definition SubroutineDefinition_init ::
  "error + TealType \<Rightarrow> 'h pyobject \<Rightarrow> TealType \<Rightarrow> string option \<Rightarrow> TealType list option
     \<Rightarrow> 'h world \<Rightarrow> (error + 'h SubroutineDefinition) \<times> 'h world" where
  "SubroutineDefinition_init tyof impl rt nameStr its w =
     (let new_id = nextSubroutineId w;
          w1 = w\<lparr>nextSubroutineId := new_id + 1\<rparr>
      in case impl of
           Uncallable c \<Rightarrow> (Inl NotCallable, w1)
         | Function f \<Rightarrow>
             (let sig_params = fn_parameters f in
              if its \<noteq> None \<and> length (the its) \<noteq> length sig_params
              then (Inl (InputTypesCountMismatch (length (the its)) (length sig_params)), w1)
              else
                (let annotations = fn_annotations f in
                 if map_of annotations ''return'' \<noteq> None
                    \<and> map_of annotations ''return'' \<noteq> Some AnnExpr
                 then (Inl DisallowedReturnAnnotation, w1)
                 else
                   (case init_loop tyof annotations its 0 sig_params ([], {}) of
                      Inl e \<Rightarrow> (Inl e, w1)
                    | Inr (expected, by_ref) \<Rightarrow>
                        (Inr \<lparr>id' = new_id, input_types = its, by_ref_args = by_ref,
                              expected_arg_types = expected, implementation = f,
                              implementationParams = sig_params, returnType = rt,
                              declaration' = None,
                              name' = (case nameStr of None \<Rightarrow> fn_name f | Some n \<Rightarrow> n)\<rparr>,
                         w1)))))"

definition argumentCount :: "'h SubroutineDefinition \<Rightarrow> nat" where
  "argumentCount self = length (implementationParams self)"

definition arguments :: "'h SubroutineDefinition \<Rightarrow> string list" where
  "arguments self = map fst (implementationParams self)"

subsection \<open>SubroutineCall\<close>

record 'h SubroutineCall =
  subroutine :: "'h SubroutineDefinition"
  args :: "pyval list"

text \<open>
  The loop of \<open>SubroutineCall.__init__\<close>: the first argument that is neither an \<open>Expr\<close>
  nor a \<open>ScratchVar\<close>, or whose type (\<open>type_of()\<close> of an \<open>Expr\<close>, the field \<open>type\<close> of a
  \<open>ScratchVar\<close>) is \<open>TealType.none\<close>, raises.
\<close>

fun call_loop :: "nat \<Rightarrow> pyval list \<Rightarrow> error option" where
  "call_loop i [] = None"
| "call_loop i (arg # rest) =
     (if \<not> (isinstance arg ExprClass \<or> isinstance arg ScratchVarClass)
      then Some (UnexpectedArgument i)
      else
        (let arg_type =
           (case arg of PyExpr e \<Rightarrow> type_of e | PyScratchVar v \<Rightarrow> sv_type v | PyOther c \<Rightarrow> none)
         in if arg_type = none then Some (ArgumentIsNone i) else call_loop (i + 1) rest))"

definition SubroutineCall_init ::
  "'h SubroutineDefinition \<Rightarrow> pyval list \<Rightarrow> error + 'h SubroutineCall" where
  "SubroutineCall_init sub as =
     (case call_loop 0 as of
        Some e \<Rightarrow> Inl e
      | None \<Rightarrow> Inr \<lparr>subroutine = sub, args = as\<rparr>)"

text \<open>
  \<open>invoke\<close>: the arity check, then the loop over the arguments with
  \<open>self.expected_arg_types[i]\<close> (a subscript: it raises out of range), then the
  construction of the call.
\<close>

fun invoke_loop :: "ArgClass list \<Rightarrow> nat \<Rightarrow> pyval list \<Rightarrow> error option" where
  "invoke_loop expected i [] = None"
| "invoke_loop expected i (arg # rest) =
     (if \<not> i < length expected then Some PyIndexError
      else
        (let atype = expected ! i
         in if \<not> isinstance arg atype then Some (WrongArgumentType i)
            else invoke_loop expected (i + 1) rest))"

definition invoke :: "'h SubroutineDefinition \<Rightarrow> pyval list \<Rightarrow> error + 'h SubroutineCall" where
  "invoke self as =
     (if length as \<noteq> argumentCount self
      then Inl (WrongArgumentCount (argumentCount self) (length as))
      else
        (case invoke_loop (expected_arg_types self) 0 as of
           Some e \<Rightarrow> Inl e
         | None \<Rightarrow> SubroutineCall_init self as))"

subsection \<open>Lowering a call\<close>

datatype Op = Op_callsub | Op_int | Op_load | Op_other string

datatype 'h origin = FromExpr Expr | FromCall "'h SubroutineCall"

datatype 'h TealOpArg = SlotArg ScratchSlot | SubroutineArg "'h SubroutineDefinition"

text \<open>\<open>TealOp(expr, op, *args)\<close>: the node the instruction comes from, the opcode, its arguments.\<close>

datatype 'h TealOp = TealOp "'h origin" Op "'h TealOpArg list"

record CompileOptions =
  version :: nat

text \<open>
  Modelled from the spec: \<open>verifyTealVersion\<close> (module \<open>errors\<close>) is the version gate,
  failing when the target version is below the minimum of the instruction.
\<close>

definition verifyTealVersion :: "nat \<Rightarrow> nat \<Rightarrow> error option" where
  "verifyTealVersion minVersion v = (if minVersion > v then Some VersionTooLow else None)"

text \<open>
  Modelled from the spec: the lowering of a slot index pushes the integer index of the
  slot, and the lowering of a load is the one instruction loading the slot. The lowering
  of every other expression belongs to the surrounding compiler and is the parameter
  \<open>ext\<close>. An object that is not an expression has no \<open>__teal__\<close>.
\<close>

definition Expr_teal ::
  "(Expr \<Rightarrow> CompileOptions \<Rightarrow> error + 'h TealOp list) \<Rightarrow> Expr \<Rightarrow> CompileOptions
     \<Rightarrow> error + 'h TealOp list" where
  "Expr_teal ext e options =
     (case e of
        ScratchIndex s \<Rightarrow> Inr [TealOp (FromExpr e) Op_int [SlotArg s]]
      | ScratchLoad s t \<Rightarrow> Inr [TealOp (FromExpr e) Op_load [SlotArg s]]
      | _ \<Rightarrow> ext e options)"

definition pyval_teal ::
  "(Expr \<Rightarrow> CompileOptions \<Rightarrow> error + 'h TealOp list) \<Rightarrow> pyval \<Rightarrow> CompileOptions
     \<Rightarrow> error + 'h TealOp list" where
  "pyval_teal ext a options =
     (case a of PyExpr e \<Rightarrow> Expr_teal ext e options | _ \<Rightarrow> Inl PyAttributeError)"

text \<open>
  Modelled from the spec: \<open>TealBlock.FromOp(options, op, *args)\<close> (module \<open>ir\<close>) lowers
  the arguments in order, one after the other, and puts the instruction \<open>op\<close> last. The
  blocks it chains are read as one instruction sequence.
\<close>

fun FromOp_args ::
  "(Expr \<Rightarrow> CompileOptions \<Rightarrow> error + 'h TealOp list) \<Rightarrow> CompileOptions \<Rightarrow> pyval list
     \<Rightarrow> error + 'h TealOp list" where
  "FromOp_args ext options [] = Inr []"
| "FromOp_args ext options (a # rest) =
     (case pyval_teal ext a options of
        Inl e \<Rightarrow> Inl e
      | Inr ops \<Rightarrow>
          (case FromOp_args ext options rest of
             Inl e \<Rightarrow> Inl e
           | Inr ops' \<Rightarrow> Inr (ops @ ops')))"

definition FromOp ::
  "(Expr \<Rightarrow> CompileOptions \<Rightarrow> error + 'h TealOp list) \<Rightarrow> CompileOptions \<Rightarrow> 'h TealOp
     \<Rightarrow> pyval list \<Rightarrow> error + 'h TealOp list" where
  "FromOp ext options op as =
     (case FromOp_args ext options as of
        Inl e \<Rightarrow> Inl e
      | Inr ops \<Rightarrow> Inr (ops @ [op]))"

definition handle_arg :: "pyval \<Rightarrow> pyval" where
  "handle_arg arg = (case arg of PyScratchVar v \<Rightarrow> PyExpr (index v) | _ \<Rightarrow> arg)"

text \<open>
  \<open>SubroutineCall.__teal__\<close>. \<open>callsub_min_version\<close> is \<open>Op.callsub.min_version\<close>, a
  constant of the module \<open>ir\<close>.
\<close>

definition SubroutineCall_teal ::
  "nat \<Rightarrow> (Expr \<Rightarrow> CompileOptions \<Rightarrow> error + 'h TealOp list) \<Rightarrow> 'h SubroutineCall
     \<Rightarrow> CompileOptions \<Rightarrow> error + 'h TealOp list" where
  "SubroutineCall_teal callsub_min_version ext self options =
     (case verifyTealVersion callsub_min_version (version options) of
        Some e \<Rightarrow> Inl e
      | None \<Rightarrow>
          (let op = TealOp (FromCall self) Op_callsub [SubroutineArg (subroutine self)]
           in FromOp ext options op (map handle_arg (args self))))"

subsection \<open>evaluateSubroutine and getDeclaration\<close>

text \<open>
  \<open>var_n_loaded\<close>: a by-reference parameter gets a \<open>DynamicScratchVar\<close> and is handed to
  the host function as that variable; a by-value parameter gets a \<open>ScratchVar\<close> and is
  handed over as its load.
\<close>

definition var_n_loaded ::
  "'h SubroutineDefinition \<Rightarrow> string \<Rightarrow> 'h world \<Rightarrow> (ScratchVar \<times> pyval) \<times> 'h world" where
  "var_n_loaded sub param w =
     (if param \<in> by_ref_args sub
      then (case DynamicScratchVar_new anytype w of
              (argVar, w') \<Rightarrow> ((argVar, PyScratchVar argVar), w'))
      else (case ScratchVar_new anytype w of
              (argVar, w') \<Rightarrow> ((argVar, PyExpr (load argVar)), w')))"

fun map_var_n_loaded ::
  "'h SubroutineDefinition \<Rightarrow> string list \<Rightarrow> 'h world \<Rightarrow> (ScratchVar \<times> pyval) list \<times> 'h world" where
  "map_var_n_loaded sub [] w = ([], w)"
| "map_var_n_loaded sub (p # ps) w =
     (case var_n_loaded sub p w of
        (x, w1) \<Rightarrow>
          (case map_var_n_loaded sub ps w1 of
             (xs, w2) \<Rightarrow> (x # xs, w2)))"

text \<open>
  \<open>evaluateSubroutine\<close>: allocate the variables in declaration order, call the host
  function once on the loaded arguments, check that it returned an expression, and
  build the sequence of the stores, in reverse, and the returned body.
\<close>

definition evaluateSubroutine ::
  "'h SubroutineDefinition \<Rightarrow> 'h world \<Rightarrow> (error + SubroutineDeclaration) \<times> 'h world" where
  "evaluateSubroutine sub w =
     (case map_var_n_loaded sub (arguments sub) w of
        (pairs, w1) \<Rightarrow>
          (let argumentVars = map fst pairs;
               loadedArgs = map snd pairs
           in case fn_call (implementation sub) loadedArgs w1 of
                (Inl e, w2) \<Rightarrow> (Inl e, w2)
              | (Inr subroutineBody, w2) \<Rightarrow>
                  (case subroutineBody of
                     PyExpr b \<Rightarrow>
                       (let bodyOps = map (\<lambda>var. store (slot var)) (rev argumentVars);
                            bodyOps' = bodyOps @ [b]
                        in case SubroutineDeclaration_init sub (Seq bodyOps') w2 of
                             (d, w3) \<Rightarrow> (Inr d, w3))
                   | _ \<Rightarrow> (Inl BodyNotExpr, w2))))"

text \<open>
  \<open>getDeclaration\<close> changes the definition (its cache); the changed definition is
  returned with the result and the world.
\<close>

definition getDeclaration ::
  "'h SubroutineDefinition \<Rightarrow> 'h world
     \<Rightarrow> (error + SubroutineDeclaration) \<times> 'h SubroutineDefinition \<times> 'h world" where
  "getDeclaration self w =
     (case declaration' self of
        None \<Rightarrow>
          (case evaluateSubroutine self w of
             (Inl e, w') \<Rightarrow> (Inl e, self, w')
           | (Inr d, w') \<Rightarrow> (Inr d, self\<lparr>declaration' := Some d\<rparr>, w'))
      | Some d \<Rightarrow> (Inr d, self, w))"

subsection \<open>The words of the specification\<close>

text \<open>
  The definitions of this subsection are not code of the module: they name what the
  specification talks about, so that the theorems can compare the code with it.
\<close>

text \<open>
  An argument a call node accepts: a value expression or a reference variable whose
  static type is not \<open>TealType.none\<close>. \<open>rejection a k\<close> is the error raised for a refused
  argument \<open>a\<close> at index \<open>k\<close>.
\<close>

definition acceptable :: "pyval \<Rightarrow> bool" where
  "acceptable a =
     (case a of
        PyExpr e \<Rightarrow> type_of e \<noteq> none
      | PyScratchVar v \<Rightarrow> sv_type v \<noteq> none
      | PyOther c \<Rightarrow> False)"

fun rejection :: "pyval \<Rightarrow> nat \<Rightarrow> error" where
  "rejection (PyOther c) k = UnexpectedArgument k"
| "rejection a k = ArgumentIsNone k"

text \<open>
  The slot allocated to the parameter of index \<open>k\<close> when the algorithm starts in the
  world \<open>w\<close>, the variable made for it, and the handle given to the host function: the
  variable itself for a by-reference parameter, the load of the slot for a by-value one.
\<close>

definition param_slot :: "'h world \<Rightarrow> nat \<Rightarrow> ScratchSlot" where
  "param_slot w k = ScratchSlot (nextSlotId w + k)"

definition param_var :: "'h SubroutineDefinition \<Rightarrow> 'h world \<Rightarrow> nat \<Rightarrow> ScratchVar" where
  "param_var sub w k =
     \<lparr>sv_type = anytype, slot = param_slot w k,
      dynamic = (arguments sub ! k \<in> by_ref_args sub)\<rparr>"

definition loaded_arg :: "'h SubroutineDefinition \<Rightarrow> 'h world \<Rightarrow> nat \<Rightarrow> pyval" where
  "loaded_arg sub w k =
     (if arguments sub ! k \<in> by_ref_args sub then PyScratchVar (param_var sub w k)
      else PyExpr (ScratchLoad (param_slot w k) anytype))"

text \<open>
  What one argument of a call pushes, in the words of the specification: a reference
  variable the index of its slot, a value expression its own lowering.
\<close>

definition spec_push ::
  "(Expr \<Rightarrow> CompileOptions \<Rightarrow> error + 'h TealOp list) \<Rightarrow> CompileOptions \<Rightarrow> pyval
     \<Rightarrow> 'h TealOp list" where
  "spec_push ext options a =
     (case a of
        PyScratchVar v \<Rightarrow> [TealOp (FromExpr (ScratchIndex (slot v))) Op_int [SlotArg (slot v)]]
      | PyExpr e \<Rightarrow> (case Expr_teal ext e options of Inr ops \<Rightarrow> ops | Inl x \<Rightarrow> [])
      | PyOther c \<Rightarrow> [])"

text \<open>
  The same, told apart by the kind of the reference variable: a plain variable pushes
  the index of its slot, a dynamic variable loads its own slot, which holds the index of
  the slot it aliases. \<open>lowerable\<close> tells the arguments whose lowering succeeds.
\<close>

definition call_push ::
  "(Expr \<Rightarrow> CompileOptions \<Rightarrow> error + 'h TealOp list) \<Rightarrow> CompileOptions \<Rightarrow> pyval
     \<Rightarrow> 'h TealOp list" where
  "call_push ext options a =
     (case a of
        PyScratchVar v \<Rightarrow>
          (if dynamic v
           then [TealOp (FromExpr (ScratchLoad (slot v) uint64)) Op_load [SlotArg (slot v)]]
           else [TealOp (FromExpr (ScratchIndex (slot v))) Op_int [SlotArg (slot v)]])
      | PyExpr e \<Rightarrow> (case Expr_teal ext e options of Inr ops \<Rightarrow> ops | Inl x \<Rightarrow> [])
      | PyOther c \<Rightarrow> [])"

definition lowerable ::
  "(Expr \<Rightarrow> CompileOptions \<Rightarrow> error + 'h TealOp list) \<Rightarrow> CompileOptions \<Rightarrow> pyval \<Rightarrow> bool" where
  "lowerable ext options a =
     (case a of
        PyScratchVar v \<Rightarrow> True
      | PyExpr e \<Rightarrow> (case Expr_teal ext e options of Inr ops \<Rightarrow> True | Inl x \<Rightarrow> False)
      | PyOther c \<Rightarrow> False)"

subsection \<open>Example programs\<close>

text \<open>
  The host state of the examples is a counter of the calls of the host function. An
  example function returns a node labelled \<open>l\<close> of type \<open>t\<close> over the expressions it
  was given, and counts the call.
\<close>

definition world0 :: "nat world" where
  "world0 = \<lparr>nextSubroutineId = 0, nextSlotId = 256, nextObjectId = 0, host = 0\<rparr>"

definition pos :: Parameter where
  "pos = \<lparr>kind = POSITIONAL_OR_KEYWORD, has_default = False\<rparr>"

definition operands :: "pyval list \<Rightarrow> Expr list" where
  "operands as = concat (map (\<lambda>a. case a of PyExpr e \<Rightarrow> [e] | _ \<Rightarrow> []) as)"

definition example_call ::
  "string \<Rightarrow> TealType \<Rightarrow> pyval list \<Rightarrow> nat world \<Rightarrow> (error + pyval) \<times> nat world" where
  "example_call l t as w = (Inr (PyExpr (OtherExpr l t (operands as))), w\<lparr>host := Suc (host w)\<rparr>)"

text \<open>\<open>def three(p0: Expr, p1: ScratchVar, p2) -> Expr\<close>\<close>

definition three_fn :: "nat PyFunction" where
  "three_fn =
     \<lparr>fn_name = ''three'',
      fn_parameters = [(''p0'', pos), (''p1'', pos), (''p2'', pos)],
      fn_annotations = [(''p0'', AnnExpr), (''p1'', AnnScratchVar), (''return'', AnnExpr)],
      fn_call = example_call ''body'' uint64\<rparr>"

definition three_def :: "nat SubroutineDefinition" where
  "three_def =
     \<lparr>id' = 0, input_types = None, by_ref_args = {''p1''},
      expected_arg_types = [ExprClass, ScratchVarClass, ExprClass],
      implementation = three_fn,
      implementationParams = [(''p0'', pos), (''p1'', pos), (''p2'', pos)],
      returnType = uint64, declaration' = None, name' = ''three''\<rparr>"

text \<open>\<open>def approve()\<close>, returning an expression of type none.\<close>

definition approve_body :: Expr where
  "approve_body = OtherExpr ''Approve'' none []"

definition approve_fn :: "nat PyFunction" where
  "approve_fn =
     \<lparr>fn_name = ''approve'', fn_parameters = [], fn_annotations = [],
      fn_call = example_call ''Approve'' none\<rparr>"

definition approve_def :: "nat SubroutineDefinition" where
  "approve_def =
     \<lparr>id' = 0, input_types = None, by_ref_args = {},
      expected_arg_types = [], implementation = approve_fn,
      implementationParams = [], returnType = none, declaration' = None,
      name' = ''approve''\<rparr>"

text \<open>\<open>def typed(a: Expr)\<close>, to be declared with \<open>input_types=[TealType.bytes]\<close>.\<close>

definition typed_fn :: "nat PyFunction" where
  "typed_fn =
     \<lparr>fn_name = ''typed'', fn_parameters = [(''a'', pos)],
      fn_annotations = [(''a'', AnnExpr)],
      fn_call = example_call ''body'' uint64\<rparr>"

definition typed_def :: "nat SubroutineDefinition" where
  "typed_def =
     \<lparr>id' = 0, input_types = Some [bytes], by_ref_args = {},
      expected_arg_types = [ExprClass], implementation = typed_fn,
      implementationParams = [(''a'', pos)], returnType = uint64, declaration' = None,
      name' = ''typed''\<rparr>"

text \<open>Arguments: two integer literals, an expression of type none, a variable.\<close>

definition int1 :: Expr where
  "int1 = OtherExpr ''Int 1'' uint64 []"

definition int2 :: Expr where
  "int2 = OtherExpr ''Int 2'' uint64 []"

definition var7 :: ScratchVar where
  "var7 = \<lparr>sv_type = uint64, slot = ScratchSlot 7, dynamic = False\<rparr>"

text \<open>
  The handle the host function of \<open>three\<close> is given for its by-reference parameter
  \<open>p1\<close> when the body is built in \<open>world1\<close>: a dynamic variable on slot 257.
\<close>

definition handle_p1 :: ScratchVar where
  "handle_p1 = \<lparr>sv_type = anytype, slot = ScratchSlot 257, dynamic = True\<rparr>"

text \<open>A lowering of the other expressions: one instruction named after the node.\<close>

definition example_ext :: "Expr \<Rightarrow> CompileOptions \<Rightarrow> error + nat TealOp list" where
  "example_ext e options =
     (case e of
        OtherExpr l t es \<Rightarrow> Inr [TealOp (FromExpr e) (Op_other l) []]
      | _ \<Rightarrow> Inl PyAttributeError)"


text \<open>
  The worlds and the declaration of the examples: \<open>world1\<close> after the definition was
  constructed in \<open>world0\<close>, \<open>world2\<close> after the body of \<open>three\<close> was built in \<open>world1\<close>.
\<close>

definition world1 :: "nat world" where
  "world1 = \<lparr>nextSubroutineId = 1, nextSlotId = 256, nextObjectId = 0, host = 0\<rparr>"

definition world2 :: "nat world" where
  "world2 = \<lparr>nextSubroutineId = 1, nextSlotId = 259, nextObjectId = 1, host = 1\<rparr>"

definition three_decl :: SubroutineDeclaration where
  "three_decl =
     \<lparr>object_id = 0, decl_subroutine = 0,
      body = Seq [ScratchStackStore (ScratchSlot 258), ScratchStackStore (ScratchSlot 257),
                  ScratchStackStore (ScratchSlot 256),
                  OtherExpr ''body'' uint64
                    [ScratchLoad (ScratchSlot 256) anytype,
                     ScratchLoad (ScratchSlot 258) anytype]]\<rparr>"


section \<open>Properties\<close>

subsection \<open>The examples, evaluated\<close>

lemmas example_defs =
  Let_def world0_def world1_def world2_def pos_def operands_def example_call_def three_fn_def
  three_def_def approve_body_def approve_fn_def approve_def_def typed_fn_def typed_def_def
  int1_def int2_def var7_def example_ext_def three_decl_def

lemma three_constructed:
  "SubroutineDefinition_init tyof (Function three_fn) uint64 None None world0
     = (Inr three_def, world1)"
  by (simp add: SubroutineDefinition_init_def example_defs loop_input_type_def
        validate_parameter_type_def)

lemma approve_constructed:
  "SubroutineDefinition_init tyof (Function approve_fn) none None None world0
     = (Inr approve_def, world1)"
  by (simp add: SubroutineDefinition_init_def example_defs)

lemma three_evaluated: "evaluateSubroutine three_def world1 = (Inr three_decl, world2)"
  by (simp add: evaluateSubroutine_def arguments_def var_n_loaded_def DynamicScratchVar_new_def
        ScratchVar_new_def ScratchSlot_new_def load_def store_def SubroutineDeclaration_init_def
        example_defs)

lemma approve_evaluated:
  "evaluateSubroutine approve_def world1 =
     (Inr \<lparr>object_id = 0, decl_subroutine = 0, body = Seq [approve_body]\<rparr>,
      world1\<lparr>nextObjectId := 1, host := 1\<rparr>)"
  by (simp add: evaluateSubroutine_def arguments_def SubroutineDeclaration_init_def
        example_defs)

subsection \<open>What the constructor establishes\<close>

text \<open>
  The input type handed to \<open>_validate_parameter_type\<close> is \<open>None\<close> at every index, whatever
  \<open>input_types\<close> holds.
\<close>

lemma loop_input_type_None: "loop_input_type its i = Inr None"
  by (simp add: loop_input_type_def)

text \<open>
  The kind the constructor records for a parameter: by reference when the annotation is
  the class \<open>ScratchVar\<close>, by value otherwise.
\<close>

lemma validate_parameter_type_kind:
  "validate_parameter_type tyof anns n None = Inr c \<Longrightarrow>
     c = (if map_of anns n = Some AnnScratchVar then ScratchVarClass else ExprClass)"
  by (auto simp: validate_parameter_type_def split: option.splits annotation.splits)

lemma init_loop_collects:
  "init_loop tyof anns its i ps (ex, br) = Inr (ex', br') \<Longrightarrow>
     ex' = ex @ map (\<lambda>p. if map_of anns (fst p) = Some AnnScratchVar then ScratchVarClass
                           else ExprClass) ps
     \<and> br' = br \<union> {n \<in> fst ` set ps. map_of anns n = Some AnnScratchVar}"
proof (induction ps arbitrary: i ex br)
  case Nil
  then show ?case by simp
next
  case (Cons np ps)
  obtain n p where np: "np = (n, p)" by (cases np)
  from Cons.prems np obtain c where
    c: "validate_parameter_type tyof anns n None = Inr c" and
    rest: "init_loop tyof anns its (i + 1) ps
             (ex @ [c], if c = ScratchVarClass then insert n br else br) = Inr (ex', br')"
    by (auto simp: loop_input_type_None split: if_splits sum.splits)
  from validate_parameter_type_kind[OF c] have
    ck: "c = (if map_of anns n = Some AnnScratchVar then ScratchVarClass else ExprClass)" .
  from Cons.IH[OF rest] ck np show ?case by auto
qed

lemma SubroutineDefinition_init_kinds:
  assumes "SubroutineDefinition_init tyof impl rt nameStr its w = (Inr d, w')"
  shows "length (expected_arg_types d) = argumentCount d
       \<and> expected_arg_types d =
           map (\<lambda>p. if map_of (fn_annotations (implementation d)) (fst p) = Some AnnScratchVar
                     then ScratchVarClass else ExprClass) (implementationParams d)
       \<and> declaration' d = None"
proof -
  from assms obtain f where f: "impl = Function f"
    by (cases impl) (auto simp: SubroutineDefinition_init_def Let_def)
  from assms f obtain ex br where
    loop: "init_loop tyof (fn_annotations f) its 0 (fn_parameters f) ([], {}) = Inr (ex, br)" and
    d: "expected_arg_types d = ex" "implementation d = f" "implementationParams d = fn_parameters f"
       "declaration' d = None"
    by (auto simp: SubroutineDefinition_init_def Let_def split: if_splits sum.splits)
  from init_loop_collects[OF loop] d show ?thesis
    by (simp add: argumentCount_def)
qed


subsection \<open>Constructing a call\<close>

lemma call_loop_None: "call_loop i as = None \<longleftrightarrow> list_all acceptable as"
  by (induction as arbitrary: i) (auto simp: acceptable_def split: pyval.splits)

lemma call_loop_Some:
  "\<not> list_all acceptable as \<Longrightarrow>
   \<exists>k<length as. \<not> acceptable (as ! k) \<and> list_all acceptable (take k as) \<and>
      call_loop i as = Some (rejection (as ! k) (i + k))"
proof (induction as arbitrary: i)
  case Nil
  then show ?case by simp
next
  case (Cons a as)
  show ?case
  proof (cases "acceptable a")
    case True
    with Cons.prems have "\<not> list_all acceptable as" by simp
    from Cons.IH[OF this, of "i + 1"] obtain k where
      k: "k < length as" "\<not> acceptable (as ! k)" "list_all acceptable (take k as)"
         "call_loop (i + 1) as = Some (rejection (as ! k) (i + 1 + k))"
      by blast
    from True have step: "call_loop i (a # as) = call_loop (i + 1) as"
      by (cases a) (auto simp: acceptable_def)
    show ?thesis
      using k True step by (intro exI[of _ "Suc k"]) (simp del: call_loop.simps)
  next
    case False
    then have "call_loop i (a # as) = Some (rejection a i)"
      by (cases a) (auto simp: acceptable_def)
    with False show ?thesis
      by (intro exI[of _ 0]) simp
  qed
qed

text \<open>
  C8. The constructor of a call accepts an argument list exactly when every argument is
  a value expression or a reference variable whose static type is not
  \<open>TealType.none\<close>; otherwise it raises, for the first argument \<open>k\<close> that is not: an
  error about the unexpected Python type when it is of another class, an error
  about \<open>TealType.none\<close> when its static type is none.
\<close>

theorem SubroutineCall_init_validates:
  "(list_all acceptable as \<longrightarrow>
      SubroutineCall_init sub as = Inr \<lparr>subroutine = sub, args = as\<rparr>)
   \<and> (\<not> list_all acceptable as \<longrightarrow>
        (\<exists>k<length as. \<not> acceptable (as ! k) \<and> list_all acceptable (take k as) \<and>
           SubroutineCall_init sub as = Inl (rejection (as ! k) k)))"
proof (intro conjI impI)
  assume "list_all acceptable as"
  then show "SubroutineCall_init sub as = Inr \<lparr>subroutine = sub, args = as\<rparr>"
    using call_loop_None[of 0 as] by (simp add: SubroutineCall_init_def)
next
  assume "\<not> list_all acceptable as"
  from call_loop_Some[OF this, of 0]
  show "\<exists>k<length as. \<not> acceptable (as ! k) \<and> list_all acceptable (take k as) \<and>
           SubroutineCall_init sub as = Inl (rejection (as ! k) k)"
    by (auto simp: SubroutineCall_init_def)
qed

theorem SubroutineCall_init_validates_witness:
  "SubroutineCall_init three_def [PyExpr int1, PyOther ''5''] = Inl (UnexpectedArgument 1)
   \<and> SubroutineCall_init three_def [PyExpr int1, PyExpr approve_body] = Inl (ArgumentIsNone 1)
   \<and> SubroutineCall_init three_def [PyScratchVar (var7\<lparr>sv_type := none\<rparr>)]
       = Inl (ArgumentIsNone 0)
   \<and> SubroutineCall_init three_def [PyExpr int1, PyScratchVar var7]
       = Inr \<lparr>subroutine = three_def, args = [PyExpr int1, PyScratchVar var7]\<rparr>"
  using SubroutineCall_init_validates[of "[PyExpr int1, PyScratchVar var7]" three_def]
    SubroutineCall_init_validates[of "[PyExpr int1, PyOther ''5'']" three_def]
  by (simp add: SubroutineCall_init_def acceptable_def int1_def approve_body_def var7_def)

text \<open>
  C10. Constructing a call directly checks the arguments only: whatever the definition,
  a list of acceptable arguments (each a value expression or a reference variable, none
  typed \<open>TealType.none\<close>) gives a call holding the definition and the list. Neither the
  definition's parameter count nor its expected kinds are read; \<open>invoke\<close> is where they
  are checked, as the example shows: the definition \<open>three\<close> takes a value, a reference
  and a value, and the constructor accepts both one variable alone and a variable in
  the place of the first value, which \<open>invoke\<close> refuses.
\<close>

theorem SubroutineCall_init_ignores_definition:
  "list_all acceptable as \<Longrightarrow>
     SubroutineCall_init sub as = Inr \<lparr>subroutine = sub, args = as\<rparr>"
  using call_loop_None[of 0 as] by (simp add: SubroutineCall_init_def)

theorem SubroutineCall_init_ignores_definition_witness:
  "list_all acceptable [PyScratchVar var7]
   \<and> length [PyScratchVar var7] \<noteq> argumentCount three_def
   \<and> SubroutineCall_init three_def [PyScratchVar var7]
       = Inr \<lparr>subroutine = three_def, args = [PyScratchVar var7]\<rparr>
   \<and> invoke three_def [PyScratchVar var7] = Inl (WrongArgumentCount 3 1)
   \<and> list_all acceptable [PyScratchVar var7, PyScratchVar var7, PyExpr int1]
   \<and> \<not> isinstance (PyScratchVar var7) (expected_arg_types three_def ! 0)
   \<and> SubroutineCall_init three_def [PyScratchVar var7, PyScratchVar var7, PyExpr int1]
       = Inr \<lparr>subroutine = three_def,
               args = [PyScratchVar var7, PyScratchVar var7, PyExpr int1]\<rparr>
   \<and> invoke three_def [PyScratchVar var7, PyScratchVar var7, PyExpr int1]
       = Inl (WrongArgumentType 0)"
proof -
  have a1: "list_all acceptable [PyScratchVar var7]"
    by (simp add: acceptable_def var7_def)
  have a2: "list_all acceptable [PyScratchVar var7, PyScratchVar var7, PyExpr int1]"
    by (simp add: acceptable_def var7_def int1_def)
  show ?thesis
    using a1 a2 SubroutineCall_init_ignores_definition[OF a1, of three_def]
      SubroutineCall_init_ignores_definition[OF a2, of three_def]
    by (simp add: invoke_def argumentCount_def three_def_def)
qed

subsection \<open>Lowering a call\<close>

text \<open>
  C9. Lowering a call for a target version below the minimum version of the call
  instruction raises the version error: the result is the error, and no instruction
  sequence, whatever the arguments are.
\<close>

theorem SubroutineCall_teal_version_too_low:
  "version options < callsub_min_version \<Longrightarrow>
     SubroutineCall_teal callsub_min_version ext self options = Inl VersionTooLow"
  by (simp add: SubroutineCall_teal_def verifyTealVersion_def)

theorem SubroutineCall_teal_version_too_low_witness:
  "version \<lparr>version = 3\<rparr> < (4::nat)
   \<and> SubroutineCall_teal 4 example_ext
        \<lparr>subroutine = three_def, args = [PyExpr int1, PyScratchVar var7, PyExpr int2]\<rparr>
        \<lparr>version = 3\<rparr> = Inl VersionTooLow
   \<and> (\<exists>ops. SubroutineCall_teal 4 example_ext
        \<lparr>subroutine = three_def, args = [PyExpr int1, PyScratchVar var7, PyExpr int2]\<rparr>
        \<lparr>version = 4\<rparr> = Inr ops)"
proof -
  have v: "version \<lparr>version = 3\<rparr> < (4::nat)" by simp
  show ?thesis
    using v SubroutineCall_teal_version_too_low[OF v, of example_ext
        "\<lparr>subroutine = three_def, args = [PyExpr int1, PyScratchVar var7, PyExpr int2]\<rparr>"]
    by (simp add: SubroutineCall_teal_def verifyTealVersion_def FromOp_def pyval_teal_def
          handle_arg_def Expr_teal_def index_def example_ext_def int1_def int2_def var7_def)
qed

lemma pyval_teal_handle_arg:
  "pyval_teal ext (handle_arg a) options = Inr o1 \<longleftrightarrow>
     lowerable ext options a \<and> o1 = call_push ext options a"
  by (cases a)
     (auto simp: pyval_teal_def handle_arg_def call_push_def lowerable_def index_def
        Expr_teal_def split: sum.splits)

lemma FromOp_args_handle:
  "FromOp_args ext options (map handle_arg as) = Inr ops \<longleftrightarrow>
     list_all (lowerable ext options) as \<and> ops = concat (map (call_push ext options) as)"
proof (induction as arbitrary: ops)
  case Nil
  then show ?case by auto
next
  case (Cons a as)
  show ?case
  proof
    assume "FromOp_args ext options (map handle_arg (a # as)) = Inr ops"
    then obtain o1 o2 where
      o1: "pyval_teal ext (handle_arg a) options = Inr o1" and
      o2: "FromOp_args ext options (map handle_arg as) = Inr o2" and
      ops: "ops = o1 @ o2"
      by (auto split: sum.splits)
    from o1 have "lowerable ext options a \<and> o1 = call_push ext options a"
      by (simp add: pyval_teal_handle_arg)
    moreover from o2 have
      "list_all (lowerable ext options) as \<and> o2 = concat (map (call_push ext options) as)"
      by (simp add: Cons.IH)
    ultimately show "list_all (lowerable ext options) (a # as)
        \<and> ops = concat (map (call_push ext options) (a # as))"
      using ops by simp
  next
    assume h: "list_all (lowerable ext options) (a # as)
        \<and> ops = concat (map (call_push ext options) (a # as))"
    then have "pyval_teal ext (handle_arg a) options = Inr (call_push ext options a)"
      by (simp add: pyval_teal_handle_arg)
    moreover from h have "FromOp_args ext options (map handle_arg as)
        = Inr (concat (map (call_push ext options) as))"
      by (simp add: Cons.IH)
    ultimately show "FromOp_args ext options (map handle_arg (a # as)) = Inr ops"
      using h by simp
  qed
qed

text \<open>
  C3, as amended. The lowering of a call succeeds, with the instructions \<open>ops\<close>, exactly
  when the target version is at least the minimum of the call instruction, the lowering
  of every argument succeeds, and \<open>ops\<close> is, in the order of the arguments, what each
  argument pushes, followed by one call instruction on the definition of the call. A
  plain reference variable pushes the integer index of its slot; a dynamic reference
  variable pushes a load of its own slot, which holds the index of the slot it aliases;
  a value expression pushes its own lowering. No reference argument pushes the value of
  the variable it stands for. In particular, whenever the version is high enough and
  the arguments can be lowered, the lowering does succeed with these instructions.
\<close>

theorem SubroutineCall_teal_pushes:
  "SubroutineCall_teal callsub_min_version ext self options = Inr ops
   \<longleftrightarrow> callsub_min_version \<le> version options
       \<and> list_all (lowerable ext options) (args self)
       \<and> ops = concat (map (call_push ext options) (args self))
               @ [TealOp (FromCall self) Op_callsub [SubroutineArg (subroutine self)]]"
proof (cases "callsub_min_version \<le> version options")
  case False
  then show ?thesis
    by (simp add: SubroutineCall_teal_def verifyTealVersion_def)
next
  case True
  then have run: "SubroutineCall_teal callsub_min_version ext self options =
      FromOp ext options (TealOp (FromCall self) Op_callsub [SubroutineArg (subroutine self)])
        (map handle_arg (args self))"
    by (simp add: SubroutineCall_teal_def verifyTealVersion_def)
  show ?thesis
  proof (cases "FromOp_args ext options (map handle_arg (args self))")
    case (Inl e)
    then have "\<not> list_all (lowerable ext options) (args self)"
      using FromOp_args_handle[of ext options "args self"
          "concat (map (call_push ext options) (args self))"]
      by auto
    with Inl run show ?thesis by (simp add: FromOp_def)
  next
    case (Inr o1)
    then have "list_all (lowerable ext options) (args self)
        \<and> o1 = concat (map (call_push ext options) (args self))"
      by (simp add: FromOp_args_handle)
    with Inr run True show ?thesis by (auto simp: FromOp_def)
  qed
qed

theorem SubroutineCall_teal_pushes_witness:
  "SubroutineCall_teal 4 example_ext
     \<lparr>subroutine = three_def, args = [PyExpr int1, PyScratchVar var7, PyExpr int2]\<rparr>
     \<lparr>version = 4\<rparr>
   = Inr [TealOp (FromExpr int1) (Op_other ''Int 1'') [],
          TealOp (FromExpr (ScratchIndex (ScratchSlot 7))) Op_int [SlotArg (ScratchSlot 7)],
          TealOp (FromExpr int2) (Op_other ''Int 2'') [],
          TealOp (FromCall \<lparr>subroutine = three_def,
                            args = [PyExpr int1, PyScratchVar var7, PyExpr int2]\<rparr>)
            Op_callsub [SubroutineArg three_def]]
   \<and> SubroutineCall_teal 4 example_ext
       \<lparr>subroutine = three_def, args = [PyExpr int1, PyScratchVar handle_p1, PyExpr int2]\<rparr>
       \<lparr>version = 4\<rparr>
     = Inr [TealOp (FromExpr int1) (Op_other ''Int 1'') [],
            TealOp (FromExpr (ScratchLoad (ScratchSlot 257) uint64)) Op_load
              [SlotArg (ScratchSlot 257)],
            TealOp (FromExpr int2) (Op_other ''Int 2'') [],
            TealOp (FromCall \<lparr>subroutine = three_def,
                              args = [PyExpr int1, PyScratchVar handle_p1, PyExpr int2]\<rparr>)
              Op_callsub [SubroutineArg three_def]]"
proof -
  have l1: "list_all (lowerable example_ext \<lparr>version = 4\<rparr>)
              [PyExpr int1, PyScratchVar var7, PyExpr int2]"
    by (simp add: lowerable_def Expr_teal_def example_ext_def int1_def int2_def)
  have l2: "list_all (lowerable example_ext \<lparr>version = 4\<rparr>)
              [PyExpr int1, PyScratchVar handle_p1, PyExpr int2]"
    by (simp add: lowerable_def Expr_teal_def example_ext_def int1_def int2_def)
  have p: "call_push example_ext \<lparr>version = 4\<rparr> (PyExpr int1)
             = [TealOp (FromExpr int1) (Op_other ''Int 1'') []]"
    "call_push example_ext \<lparr>version = 4\<rparr> (PyExpr int2)
             = [TealOp (FromExpr int2) (Op_other ''Int 2'') []]"
    "call_push example_ext \<lparr>version = 4\<rparr> (PyScratchVar var7)
             = [TealOp (FromExpr (ScratchIndex (ScratchSlot 7))) Op_int [SlotArg (ScratchSlot 7)]]"
    "call_push example_ext \<lparr>version = 4\<rparr> (PyScratchVar handle_p1)
             = [TealOp (FromExpr (ScratchLoad (ScratchSlot 257) uint64)) Op_load
                  [SlotArg (ScratchSlot 257)]]"
    by (simp_all add: call_push_def Expr_teal_def example_ext_def int1_def int2_def var7_def
          handle_p1_def)
  show ?thesis
    using l1 l2
      SubroutineCall_teal_pushes[of 4 example_ext
        "\<lparr>subroutine = three_def, args = [PyExpr int1, PyScratchVar var7, PyExpr int2]\<rparr>"
        "\<lparr>version = 4\<rparr>"]
      SubroutineCall_teal_pushes[of 4 example_ext
        "\<lparr>subroutine = three_def, args = [PyExpr int1, PyScratchVar handle_p1, PyExpr int2]\<rparr>"
        "\<lparr>version = 4\<rparr>"]
    by (simp add: p)
qed

text \<open>
  Against C3 as stated: \<open>three\<close> passes on the handle of its by-reference parameter
  \<open>p1\<close>, a dynamic variable on slot 257, as the reference argument of a call. \<open>invoke\<close>
  builds the call, and its lowering succeeds; but the handle contributes a load of slot
  257, not the instruction pushing the index of its slot that the claim describes.
\<close>

theorem SubroutineCall_teal_pushes_counterexample:
  "handle_p1 = param_var three_def world1 1
   \<and> invoke three_def [PyExpr int1, PyScratchVar handle_p1, PyExpr int2]
       = Inr \<lparr>subroutine = three_def,
               args = [PyExpr int1, PyScratchVar handle_p1, PyExpr int2]\<rparr>
   \<and> SubroutineCall_teal 4 example_ext
       \<lparr>subroutine = three_def, args = [PyExpr int1, PyScratchVar handle_p1, PyExpr int2]\<rparr>
       \<lparr>version = 4\<rparr>
     = Inr [TealOp (FromExpr int1) (Op_other ''Int 1'') [],
            TealOp (FromExpr (ScratchLoad (ScratchSlot 257) uint64)) Op_load
              [SlotArg (ScratchSlot 257)],
            TealOp (FromExpr int2) (Op_other ''Int 2'') [],
            TealOp (FromCall \<lparr>subroutine = three_def,
                              args = [PyExpr int1, PyScratchVar handle_p1, PyExpr int2]\<rparr>)
              Op_callsub [SubroutineArg three_def]]
   \<and> spec_push example_ext \<lparr>version = 4\<rparr> (PyScratchVar handle_p1)
       = [TealOp (FromExpr (ScratchIndex (ScratchSlot 257))) Op_int [SlotArg (ScratchSlot 257)]]
   \<and> SubroutineCall_teal 4 example_ext
       \<lparr>subroutine = three_def, args = [PyExpr int1, PyScratchVar handle_p1, PyExpr int2]\<rparr>
       \<lparr>version = 4\<rparr>
     \<noteq> Inr (concat (map (spec_push example_ext \<lparr>version = 4\<rparr>)
                 [PyExpr int1, PyScratchVar handle_p1, PyExpr int2])
            @ [TealOp (FromCall \<lparr>subroutine = three_def,
                                 args = [PyExpr int1, PyScratchVar handle_p1, PyExpr int2]\<rparr>)
                 Op_callsub [SubroutineArg three_def]])"
proof -
  have h: "handle_p1 = param_var three_def world1 1"
    by (simp add: handle_p1_def param_var_def param_slot_def arguments_def three_def_def
          world1_def)
  have i: "invoke three_def [PyExpr int1, PyScratchVar handle_p1, PyExpr int2]
       = Inr \<lparr>subroutine = three_def,
               args = [PyExpr int1, PyScratchVar handle_p1, PyExpr int2]\<rparr>"
    by (simp add: invoke_def SubroutineCall_init_def argumentCount_def three_def_def
          int1_def int2_def handle_p1_def)
  have run: "SubroutineCall_teal 4 example_ext
       \<lparr>subroutine = three_def, args = [PyExpr int1, PyScratchVar handle_p1, PyExpr int2]\<rparr>
       \<lparr>version = 4\<rparr>
     = Inr [TealOp (FromExpr int1) (Op_other ''Int 1'') [],
            TealOp (FromExpr (ScratchLoad (ScratchSlot 257) uint64)) Op_load
              [SlotArg (ScratchSlot 257)],
            TealOp (FromExpr int2) (Op_other ''Int 2'') [],
            TealOp (FromCall \<lparr>subroutine = three_def,
                              args = [PyExpr int1, PyScratchVar handle_p1, PyExpr int2]\<rparr>)
              Op_callsub [SubroutineArg three_def]]"
    by (simp add: SubroutineCall_teal_def verifyTealVersion_def FromOp_def pyval_teal_def
          handle_arg_def Expr_teal_def index_def example_ext_def int1_def int2_def
          handle_p1_def)
  have sp: "spec_push example_ext \<lparr>version = 4\<rparr> (PyScratchVar handle_p1)
       = [TealOp (FromExpr (ScratchIndex (ScratchSlot 257))) Op_int [SlotArg (ScratchSlot 257)]]"
    by (simp add: spec_push_def handle_p1_def)
  have sp1: "spec_push example_ext \<lparr>version = 4\<rparr> (PyExpr int1)
             = [TealOp (FromExpr int1) (Op_other ''Int 1'') []]"
    and sp2: "spec_push example_ext \<lparr>version = 4\<rparr> (PyExpr int2)
             = [TealOp (FromExpr int2) (Op_other ''Int 2'') []]"
    by (simp_all add: spec_push_def Expr_teal_def example_ext_def int1_def int2_def)
  from h i run sp sp1 sp2 show ?thesis by simp
qed

subsection \<open>invoke\<close>

lemma invoke_loop_pass:
  "list_all2 isinstance as (drop i expected) \<Longrightarrow> invoke_loop expected i as = None"
proof (induction as arbitrary: i)
  case Nil
  then show ?case by simp
next
  case (Cons a as)
  from Cons.prems obtain c cs where
    d: "drop i expected = c # cs" and a: "isinstance a c" and
    rest: "list_all2 isinstance as cs"
    by (auto simp: list_all2_Cons1)
  from d have i: "i < length expected"
    by (cases "i < length expected") auto
  with d have c: "expected ! i = c" and cs: "drop (i + 1) expected = cs"
    by (simp_all add: Cons_nth_drop_Suc[symmetric])
  from rest cs have "invoke_loop expected (i + 1) as = None"
    using Cons.IH[of "i + 1"] by simp
  with i a c show ?case by simp
qed

lemma invoke_loop_first_mismatch:
  "k < length as \<Longrightarrow> i + k < length expected \<Longrightarrow>
   \<not> isinstance (as ! k) (expected ! (i + k)) \<Longrightarrow>
   (\<forall>j<k. isinstance (as ! j) (expected ! (i + j))) \<Longrightarrow>
   invoke_loop expected i as = Some (WrongArgumentType (i + k))"
proof (induction as arbitrary: i k)
  case Nil
  then show ?case by simp
next
  case (Cons a as)
  show ?case
  proof (cases k)
    case 0
    with Cons.prems show ?thesis by simp
  next
    case (Suc k')
    from Cons.prems(4) Suc have a: "isinstance a (expected ! i)"
      by (auto dest: spec[of _ 0])
    from Cons.prems(4) Suc have
      before: "\<forall>j<k'. isinstance (as ! j) (expected ! (i + 1 + j))"
      by (auto dest: spec[of _ "Suc j" for j])
    from Cons.prems Suc have
      "invoke_loop expected (i + 1) as = Some (WrongArgumentType (i + 1 + k'))"
      using before by (intro Cons.IH) simp_all
    with a Cons.prems(2) Suc show ?thesis by simp
  qed
qed

lemma invoke_loop_mismatch:
  "k < length as \<Longrightarrow> i + k < length expected \<Longrightarrow>
   \<not> isinstance (as ! k) (expected ! (i + k)) \<Longrightarrow>
   \<exists>e. invoke_loop expected i as = Some e"
proof (induction as arbitrary: i k)
  case Nil
  then show ?case by simp
next
  case (Cons a as)
  show ?case
  proof (cases k)
    case 0
    with Cons.prems show ?thesis by simp
  next
    case (Suc k')
    with Cons.prems have "\<exists>e. invoke_loop expected (i + 1) as = Some e"
      by (intro Cons.IH[of k' "i + 1"]) simp_all
    then show ?thesis by auto
  qed
qed

text \<open>
  C6, as amended. For every definition and every argument list: when the number of
  arguments differs from the number of parameters, \<open>invoke\<close> raises the arity error and
  no call is built; when the two are equal, every argument is an instance of the kind
  expected at its index and, in addition, no argument has the static type
  \<open>TealType.none\<close>, \<open>invoke\<close> returns the call holding that definition and exactly those
  arguments in order.
\<close>

theorem invoke_arity:
  "(length as \<noteq> argumentCount self \<longrightarrow>
      invoke self as = Inl (WrongArgumentCount (argumentCount self) (length as)))
   \<and> (length as = argumentCount self \<and> list_all2 isinstance as (expected_arg_types self)
        \<and> list_all acceptable as \<longrightarrow>
      invoke self as = Inr \<lparr>subroutine = self, args = as\<rparr>)"
proof (intro conjI impI)
  assume "length as \<noteq> argumentCount self"
  then show "invoke self as = Inl (WrongArgumentCount (argumentCount self) (length as))"
    by (simp add: invoke_def)
next
  assume h: "length as = argumentCount self \<and> list_all2 isinstance as (expected_arg_types self)
        \<and> list_all acceptable as"
  then have "invoke_loop (expected_arg_types self) 0 as = None"
    by (intro invoke_loop_pass) simp
  moreover from h have "call_loop 0 as = None"
    by (simp add: call_loop_None)
  ultimately show "invoke self as = Inr \<lparr>subroutine = self, args = as\<rparr>"
    using h by (simp add: invoke_def SubroutineCall_init_def)
qed

theorem invoke_arity_witness:
  "invoke three_def [PyExpr int1] = Inl (WrongArgumentCount 3 1)
   \<and> invoke three_def [PyExpr int1, PyScratchVar var7, PyExpr int2, PyExpr int2]
       = Inl (WrongArgumentCount 3 4)
   \<and> invoke three_def [PyExpr int1, PyScratchVar var7, PyExpr int2]
       = Inr \<lparr>subroutine = three_def, args = [PyExpr int1, PyScratchVar var7, PyExpr int2]\<rparr>"
  using invoke_arity[of "[PyExpr int1]" three_def]
    invoke_arity[of "[PyExpr int1, PyScratchVar var7, PyExpr int2, PyExpr int2]" three_def]
    invoke_arity[of "[PyExpr int1, PyScratchVar var7, PyExpr int2]" three_def]
  by (simp add: argumentCount_def three_def_def acceptable_def int1_def int2_def var7_def)

text \<open>
  Against C6 as stated: the definition \<open>three\<close> has three parameters (a value, a
  reference, a value); the three arguments below pass the kind check, but the first is
  an expression of type \<open>TealType.none\<close>, and \<open>invoke\<close> raises instead of returning a
  call.
\<close>

theorem invoke_arity_counterexample:
  "length [PyExpr approve_body, PyScratchVar var7, PyExpr int1] = argumentCount three_def
   \<and> list_all2 isinstance [PyExpr approve_body, PyScratchVar var7, PyExpr int1]
        (expected_arg_types three_def)
   \<and> invoke three_def [PyExpr approve_body, PyScratchVar var7, PyExpr int1]
       = Inl (ArgumentIsNone 0)"
  by (simp add: invoke_def SubroutineCall_init_def argumentCount_def three_def_def
        approve_body_def)

text \<open>
  C7, as amended. An argument list in which the argument at some index \<open>i\<close> is not an
  instance of the kind expected there (a value expression for a by-reference parameter,
  a reference variable for a by-value parameter) is always rejected by \<open>invoke\<close>. When
  the number of arguments equals the number of parameters and \<open>i\<close> is the first such
  index, the error raised names the index \<open>i\<close>.
\<close>

theorem invoke_kind_mismatch:
  assumes "i < length as" and "i < length (expected_arg_types self)"
    and "\<not> isinstance (as ! i) (expected_arg_types self ! i)"
  shows "(\<exists>e. invoke self as = Inl e)
       \<and> (length as = argumentCount self
            \<and> (\<forall>j<i. isinstance (as ! j) (expected_arg_types self ! j)) \<longrightarrow>
          invoke self as = Inl (WrongArgumentType i))"
proof (intro conjI impI)
  from invoke_loop_mismatch[of i as 0 "expected_arg_types self"] assms
  obtain e where "invoke_loop (expected_arg_types self) 0 as = Some e" by auto
  then show "\<exists>e. invoke self as = Inl e"
    by (simp add: invoke_def)
next
  assume h: "length as = argumentCount self
            \<and> (\<forall>j<i. isinstance (as ! j) (expected_arg_types self ! j))"
  with assms have "invoke_loop (expected_arg_types self) 0 as = Some (WrongArgumentType (0 + i))"
    by (intro invoke_loop_first_mismatch) simp_all
  with h show "invoke self as = Inl (WrongArgumentType i)"
    by (simp add: invoke_def)
qed

theorem invoke_kind_mismatch_witness:
  "expected_arg_types three_def = [ExprClass, ScratchVarClass, ExprClass]
   \<and> \<not> isinstance (PyExpr int2) ScratchVarClass
   \<and> invoke three_def [PyExpr int1, PyExpr int2, PyExpr int2] = Inl (WrongArgumentType 1)
   \<and> \<not> isinstance (PyScratchVar var7) ExprClass
   \<and> invoke three_def [PyExpr int1, PyScratchVar var7, PyScratchVar var7]
       = Inl (WrongArgumentType 2)"
proof -
  have e: "expected_arg_types three_def = [ExprClass, ScratchVarClass, ExprClass]"
    by (simp add: three_def_def)
  have m1: "\<not> isinstance ([PyExpr int1, PyExpr int2, PyExpr int2] ! 1)
              (expected_arg_types three_def ! 1)"
    by (simp add: e)
  have m2: "\<not> isinstance ([PyExpr int1, PyScratchVar var7, PyScratchVar var7] ! 2)
              (expected_arg_types three_def ! 2)"
    by (simp add: e)
  have b1: "\<forall>j<1. isinstance ([PyExpr int1, PyExpr int2, PyExpr int2] ! j)
              (expected_arg_types three_def ! j)"
    by (simp add: e)
  have b2: "\<forall>j<2. isinstance ([PyExpr int1, PyScratchVar var7, PyScratchVar var7] ! j)
              (expected_arg_types three_def ! j)"
    by (simp add: e less_Suc_eq numeral_2_eq_2)
  have n: "argumentCount three_def = 3"
    by (simp add: argumentCount_def three_def_def)
  from invoke_kind_mismatch[OF _ _ m1] b1 n e
  have r1: "invoke three_def [PyExpr int1, PyExpr int2, PyExpr int2] = Inl (WrongArgumentType 1)"
    by simp
  from invoke_kind_mismatch[OF _ _ m2] b2 n e
  have r2: "invoke three_def [PyExpr int1, PyScratchVar var7, PyScratchVar var7]
              = Inl (WrongArgumentType 2)"
    by simp
  from e r1 r2 show ?thesis by simp
qed

text \<open>
  Against C7 as stated: with three reference variables for \<open>three\<close>, the argument at
  index 2 has the wrong kind (the parameter is by value), but so has the argument at
  index 0, and the error names index 0, not index 2.
\<close>

theorem invoke_kind_mismatch_counterexample:
  "2 < length [PyScratchVar var7, PyScratchVar var7, PyScratchVar var7]
   \<and> expected_arg_types three_def ! 2 = ExprClass
   \<and> \<not> isinstance ([PyScratchVar var7, PyScratchVar var7, PyScratchVar var7] ! 2)
          (expected_arg_types three_def ! 2)
   \<and> invoke three_def [PyScratchVar var7, PyScratchVar var7, PyScratchVar var7]
       = Inl (WrongArgumentType 0)
   \<and> invoke three_def [PyScratchVar var7, PyScratchVar var7, PyScratchVar var7]
       \<noteq> Inl (WrongArgumentType 2)"
  by (simp add: invoke_def argumentCount_def three_def_def)


subsection \<open>evaluateSubroutine\<close>

text \<open>
  The allocation phase: the parameter of index \<open>k\<close> gets the slot \<open>nextSlotId + k\<close>, and
  only the slot counter moves.
\<close>

lemma map_var_n_loaded_eq:
  "map_var_n_loaded sub ps w =
     (map (\<lambda>k. (\<lparr>sv_type = anytype, slot = ScratchSlot (nextSlotId w + k),
                    dynamic = (ps ! k \<in> by_ref_args sub)\<rparr>,
                  if ps ! k \<in> by_ref_args sub
                  then PyScratchVar \<lparr>sv_type = anytype, slot = ScratchSlot (nextSlotId w + k),
                                      dynamic = True\<rparr>
                  else PyExpr (ScratchLoad (ScratchSlot (nextSlotId w + k)) anytype)))
        [0..<length ps],
      w\<lparr>nextSlotId := nextSlotId w + length ps\<rparr>)"
proof (induction ps arbitrary: w)
  case Nil
  then show ?case by simp
next
  case (Cons p ps)
  obtain x w1 where x: "var_n_loaded sub p w = (x, w1)" by (cases "var_n_loaded sub p w")
  then have w1: "w1 = w\<lparr>nextSlotId := nextSlotId w + 1\<rparr>"
    and xv: "x = (\<lparr>sv_type = anytype, slot = ScratchSlot (nextSlotId w),
                    dynamic = (p \<in> by_ref_args sub)\<rparr>,
                  if p \<in> by_ref_args sub
                  then PyScratchVar \<lparr>sv_type = anytype, slot = ScratchSlot (nextSlotId w),
                                      dynamic = True\<rparr>
                  else PyExpr (ScratchLoad (ScratchSlot (nextSlotId w)) anytype))"
    by (auto simp: var_n_loaded_def DynamicScratchVar_new_def ScratchVar_new_def
          ScratchSlot_new_def load_def split: if_splits)
  have up: "[0..<length (p # ps)] = 0 # map Suc [0..<length ps]"
    by (simp add: upt_conv_Cons map_Suc_upt del: upt_Suc)
  show ?case
    unfolding up
    by (simp add: x Cons.IH w1 xv comp_def del: upt_Suc)
qed

text \<open>
  A successful run, step by step: the host function is called once, on the handles of
  the parameters in declaration order and in the world where only the slots were
  allocated; it returns an expression; the world of the result is the world it leaves,
  with one more object; the body is the sequence of the stores, in reverse, and that
  expression.
\<close>

lemma evaluateSubroutine_Inr:
  assumes "evaluateSubroutine sub w = (Inr d, w')"
  shows "\<exists>authored w2.
           fn_call (implementation sub) (map (loaded_arg sub w) [0..<argumentCount sub])
             (w\<lparr>nextSlotId := nextSlotId w + argumentCount sub\<rparr>) = (Inr (PyExpr authored), w2)
         \<and> w' = w2\<lparr>nextObjectId := nextObjectId w2 + 1\<rparr>
         \<and> body d = Seq (map (\<lambda>k. store (param_slot w k)) (rev [0..<argumentCount sub])
                         @ [authored])"
proof -
  let ?n = "argumentCount sub"
  have n: "length (arguments sub) = ?n" by (simp add: arguments_def argumentCount_def)
  have loaded: "map snd (fst (map_var_n_loaded sub (arguments sub) w))
                 = map (loaded_arg sub w) [0..<?n]"
    by (simp add: map_var_n_loaded_eq n loaded_arg_def param_var_def param_slot_def comp_def)
  have vars: "map (\<lambda>var. store (slot var))
                (rev (map fst (fst (map_var_n_loaded sub (arguments sub) w))))
                 = map (\<lambda>k. store (param_slot w k)) (rev [0..<?n])"
    by (simp add: map_var_n_loaded_eq n param_slot_def comp_def rev_map)
  have w1: "snd (map_var_n_loaded sub (arguments sub) w) = w\<lparr>nextSlotId := nextSlotId w + ?n\<rparr>"
    by (simp add: map_var_n_loaded_eq n)
  obtain pairs w1' where p: "map_var_n_loaded sub (arguments sub) w = (pairs, w1')"
    by (cases "map_var_n_loaded sub (arguments sub) w")
  obtain r w2 where r: "fn_call (implementation sub) (map snd pairs) w1' = (r, w2)"
    by (cases "fn_call (implementation sub) (map snd pairs) w1'")
  from assms p r obtain authored where a: "r = Inr (PyExpr authored)"
    and b: "body d = Seq (map (\<lambda>var. store (slot var)) (rev (map fst pairs)) @ [authored])"
    and c: "w' = w2\<lparr>nextObjectId := nextObjectId w2 + 1\<rparr>"
    by (auto simp: evaluateSubroutine_def Let_def SubroutineDeclaration_init_def
          split: sum.splits pyval.splits)
  from p loaded vars w1 r a b c show ?thesis by auto
qed

text \<open>
  C1. When \<open>evaluateSubroutine\<close> builds a declaration for a definition with \<open>n\<close>
  parameters, the host function returned an expression \<open>authored\<close> (called on the
  handles of the parameters, after the \<open>n\<close> slots were allocated), and the body of the
  declaration is the sequence of exactly \<open>n\<close> stores, one per allocated slot, the slot
  of the last parameter first and the slot of the first parameter last, followed by
  \<open>authored\<close>. For the three parameters of the example the stores are those of the
  slots of \<open>p2\<close>, \<open>p1\<close>, \<open>p0\<close>, in this order.
\<close>

theorem evaluateSubroutine_prologue:
  assumes "evaluateSubroutine sub w = (Inr d, w')"
  shows "\<exists>authored w2.
           fn_call (implementation sub) (map (loaded_arg sub w) [0..<argumentCount sub])
             (w\<lparr>nextSlotId := nextSlotId w + argumentCount sub\<rparr>) = (Inr (PyExpr authored), w2)
         \<and> body d = Seq (map (\<lambda>k. store (param_slot w k)) (rev [0..<argumentCount sub])
                         @ [authored])"
  using evaluateSubroutine_Inr[OF assms] by blast

theorem evaluateSubroutine_prologue_witness:
  "evaluateSubroutine three_def world1 = (Inr three_decl, world2)
   \<and> argumentCount three_def = 3
   \<and> body three_decl =
       Seq [store (param_slot world1 2), store (param_slot world1 1),
            store (param_slot world1 0),
            OtherExpr ''body'' uint64
              [ScratchLoad (param_slot world1 0) anytype,
               ScratchLoad (param_slot world1 2) anytype]]
   \<and> loaded_arg three_def world1 1 = PyScratchVar (param_var three_def world1 1)"
  using three_evaluated evaluateSubroutine_prologue[OF three_evaluated]
  by (simp add: three_decl_def store_def param_slot_def world1_def argumentCount_def
        three_def_def loaded_arg_def arguments_def)

text \<open>
  C5, as amended. For a definition without parameters, a successful
  \<open>evaluateSubroutine\<close> calls the host function on no arguments in the very world it
  started in (no slot is allocated before), and the body of the declaration is the
  sequence whose only element is the expression the host function returned: no store
  precedes it. After the host function, only the declaration object is allocated.
\<close>

theorem evaluateSubroutine_no_parameters:
  assumes "argumentCount sub = 0" and "evaluateSubroutine sub w = (Inr d, w')"
  shows "\<exists>authored w2.
           fn_call (implementation sub) [] w = (Inr (PyExpr authored), w2)
         \<and> w' = w2\<lparr>nextObjectId := nextObjectId w2 + 1\<rparr>
         \<and> body d = Seq [authored]"
  using evaluateSubroutine_Inr[OF assms(2)] assms(1) by simp

theorem evaluateSubroutine_no_parameters_witness:
  "argumentCount approve_def = 0
   \<and> evaluateSubroutine approve_def world1 =
       (Inr \<lparr>object_id = 0, decl_subroutine = 0, body = Seq [approve_body]\<rparr>,
        world1\<lparr>nextObjectId := 1, host := 1\<rparr>)
   \<and> fn_call (implementation approve_def) [] world1
       = (Inr (PyExpr approve_body), world1\<lparr>host := 1\<rparr>)"
proof -
  have n: "argumentCount approve_def = 0"
    by (simp add: argumentCount_def approve_def_def)
  show ?thesis
    using n approve_evaluated evaluateSubroutine_no_parameters[OF n approve_evaluated]
    by (simp add: approve_def_def approve_fn_def example_call_def operands_def
          approve_body_def world1_def)
qed

text \<open>
  Against C5 as stated: the body of the declaration of \<open>approve\<close>, which has no
  parameter, is not the expression its host function returned but the sequence node
  holding that expression.
\<close>

theorem evaluateSubroutine_no_parameters_counterexample:
  "argumentCount approve_def = 0
   \<and> fst (fn_call (implementation approve_def) [] world1) = Inr (PyExpr approve_body)
   \<and> fst (evaluateSubroutine approve_def world1)
       = Inr \<lparr>object_id = 0, decl_subroutine = 0, body = Seq [approve_body]\<rparr>
   \<and> body \<lparr>object_id = 0, decl_subroutine = 0, body = Seq [approve_body]\<rparr> \<noteq> approve_body"
proof -
  have "fst (evaluateSubroutine approve_def world1)
       = Inr \<lparr>object_id = 0, decl_subroutine = 0, body = Seq [approve_body]\<rparr>"
    by (simp add: approve_evaluated)
  moreover have "argumentCount approve_def = 0
     \<and> fst (fn_call (implementation approve_def) [] world1) = Inr (PyExpr approve_body)"
    by (simp add: argumentCount_def approve_def_def approve_fn_def example_call_def
          operands_def approve_body_def)
  moreover have "Seq [approve_body] \<noteq> approve_body"
    by (simp add: approve_body_def)
  ultimately show ?thesis by simp
qed

subsection \<open>getDeclaration\<close>


text \<open>
  A failed run caches nothing, so the next call runs the algorithm again; a built
  declaration is a new object.
\<close>

lemma getDeclaration_failure:
  "getDeclaration self w = (Inl e, self', w') \<Longrightarrow> self' = self"
  by (auto simp: getDeclaration_def split: option.splits prod.splits sum.splits)

lemma evaluateSubroutine_fresh_object:
  assumes "evaluateSubroutine sub w = (Inr d, w')"
  shows "nextObjectId w' = Suc (object_id d)"
proof -
  obtain pairs w1 where p: "map_var_n_loaded sub (arguments sub) w = (pairs, w1)"
    by (cases "map_var_n_loaded sub (arguments sub) w")
  obtain r w2 where r: "fn_call (implementation sub) (map snd pairs) w1 = (r, w2)"
    by (cases "fn_call (implementation sub) (map snd pairs) w1")
  from assms p r show ?thesis
    by (auto simp: evaluateSubroutine_def Let_def SubroutineDeclaration_init_def
          split: sum.splits pyval.splits)
qed



subsection \<open>The declared input types\<close>

lemma init_loop_never_contradiction:
  "init_loop tyof anns its i ps acc \<noteq> Inl (ParameterTypeContradiction n)"
proof (induction ps arbitrary: i acc)
  case Nil
  then show ?case by simp
next
  case (Cons np ps)
  obtain name param where np: "np = (name, param)" by (cases np)
  obtain ex br where acc: "acc = (ex, br)" by (cases acc)
  have v: "validate_parameter_type tyof anns name None \<noteq> Inl (ParameterTypeContradiction n)"
    by (auto simp: validate_parameter_type_def split: option.splits annotation.splits)
  show ?case
    using Cons.IH v
    by (auto simp: np acc loop_input_type_None split: sum.splits)
qed

text \<open>
  What the model settles about the declared input types. Whatever the class-level call
  \<open>Expr.type_of()\<close> evaluates to, \<open>def typed(a: Expr)\<close> declared with
  \<open>input_types = [TealType.bytes]\<close> is constructed, and no construction ever ends in
  the contradiction error: of \<open>input_types\<close> the constructor reads the length only. When
  the class-level call raises, as a call of an instance method on the class does,
  \<open>_validate_parameter_type\<close> given an input type raises that error, whether the types
  agree or not.
\<close>

lemma typed_constructed:
  "SubroutineDefinition_init tyof (Function typed_fn) uint64 None (Some [bytes]) world0
     = (Inr typed_def, world1)"
  by (simp add: SubroutineDefinition_init_def example_defs loop_input_type_def
        validate_parameter_type_def)

lemma SubroutineDefinition_init_never_contradiction:
  "fst (SubroutineDefinition_init tyof impl rt nameStr its w)
     \<noteq> Inl (ParameterTypeContradiction n)"
  using init_loop_never_contradiction[of tyof _ its 0 _ "([], {})" n]
  by (cases impl) (auto simp: SubroutineDefinition_init_def Let_def split: sum.splits)

lemma validate_parameter_type_class_call_raises:
  "map_of anns n = Some AnnExpr \<Longrightarrow>
     validate_parameter_type (Inl PyTypeError) anns n (Some t) = Inl PyTypeError"
  by (simp add: validate_parameter_type_def)

end
